theory Spec2Isabelle
  imports Main "HOL-Library.Sublist"
begin

section \<open>IModelSession: resolving identifiers and opening a connection\<close>

text \<open>
  Conventions of the embedding.
  \<^item> A thrown JavaScript error object is a value \<open>JsError name message\<close>; an \<open>async\<close>
    function that rejects returns \<open>Inl e\<close>, one that resolves returns \<open>Inr v\<close>.
    \<open>await\<close> on a rejected promise outside a \<open>try\<close> block passes the same \<open>e\<close> on.
  \<^item> Values have their declared TypeScript types. \<open>undefined\<close> is added (as \<open>None\<close>)
    where the source itself tests or asserts it: the optional field \<open>_iModel\<close>, the
    result of the by-name query (\<open>undefined === imodels\<close>) and the result of the remote
    open (\<open>expect(...).to.exist\<close>). The fields of \<open>IModelData\<close> are read at the types
    \<open>create\<close> uses them at (\<open>projectId!\<close>, \<open>id!\<close> and \<open>name!\<close> are strings).
  \<^item> The remote services (\<open>ContextRegistryClient\<close>, \<open>IModelHubClient\<close>,
    \<open>RemoteBriefcaseConnection\<close>) and \<open>Config.App\<close> are defined in other packages; their
    outcomes are fields of the record \<open>world\<close>, so every theorem holds for whatever they
    answer. The request context is an opaque token handed to each lookup and is part of
    those outcome functions.
\<close>

datatype js_error = JsError (err_name: string) (message: string)

abbreviation new_Error :: "string \<Rightarrow> js_error" where
  "new_Error m \<equiv> JsError ''Error'' m"

text \<open>Project and HubIModel are both WsgInstance objects; only \<open>wsgId\<close> is read.\<close>

record WsgInstance =
  wsgId :: string

record IModelData =
  useName :: bool
  id_field :: string
  name :: string
  useProjectName :: bool
  projectId :: string
  projectName :: string
  changeSetId :: string

record 'c IModelSession =
  contextId :: string
  iModelId :: string
  priv_iModel :: "'c option"

text \<open>
  The outside world of a session. \<open>getProject\<close> is keyed by the \<open>$filter\<close> string,
  \<open>iModels_get\<close> by the context id and the name of the by-name query.
  \<open>RemoteBriefcaseConnection_open k\<close> is the outcome of the remote open number \<open>k\<close>;
  \<open>opens\<close> counts the remote opens performed so far and \<open>console\<close> holds the lines
  written by \<open>console.log\<close>.
\<close>

record 'c world =
  getProject :: "string \<Rightarrow> js_error + WsgInstance"
  iModels_get :: "string \<Rightarrow> string \<Rightarrow> js_error + WsgInstance list option"
  Config_App_get :: "string \<Rightarrow> js_error + string"
  RemoteBriefcaseConnection_open :: "nat \<Rightarrow> string \<Rightarrow> string \<Rightarrow> js_error + 'c option"
  opens :: nat
  console :: "string list"

definition project_filter :: "IModelData \<Rightarrow> string" where
  "project_filter iModelData =
     ''Name+eq+'' @ [CHR 0x27] @ projectName iModelData @ [CHR 0x27]"

definition missing_iModel_message :: "IModelData \<Rightarrow> string \<Rightarrow> string" where
  "missing_iModel_message iModelData contextId' =
     ''The iModel '' @ name iModelData @ '' does not exist in project '' @ contextId' @ ''.''"

definition using_iModel_line :: "IModelData \<Rightarrow> string" where
  "using_iModel_line iModelData =
     ''Using iModel { name:'' @ name iModelData @ '', id:'' @ id_field iModelData
       @ '', projectId:'' @ projectId iModelData
       @ '', changesetId:'' @ changeSetId iModelData @ '' }''"

definition IModelSession_create ::
  "'c world \<Rightarrow> IModelData \<Rightarrow> (js_error + 'c IModelSession) \<times> 'c world" where
  "IModelSession_create w iModelData =
     (case (if useProjectName iModelData
            then (case getProject w (project_filter iModelData) of
                    Inl e \<Rightarrow> Inl e
                  | Inr project \<Rightarrow> Inr (wsgId project))
            else Inr (projectId iModelData)) of
        Inl e \<Rightarrow> (Inl e, w)
      | Inr contextId' \<Rightarrow>
          (case (if useName iModelData
                 then (case iModels_get w contextId' (name iModelData) of
                         Inl e \<Rightarrow> Inl e
                       | Inr None \<Rightarrow>
                           Inl (new_Error (missing_iModel_message iModelData contextId'))
                       | Inr (Some []) \<Rightarrow>
                           Inl (new_Error (missing_iModel_message iModelData contextId'))
                       | Inr (Some (imodel # _)) \<Rightarrow> Inr (wsgId imodel))
                 else Inr (id_field iModelData)) of
             Inl e \<Rightarrow> (Inl e, w)
           | Inr imodelId \<Rightarrow>
               (Inr \<lparr>contextId = contextId', iModelId = imodelId, priv_iModel = None\<rparr>,
                w\<lparr>console := console w @ [using_iModel_line iModelData]\<rparr>)))"

text \<open>
  chai's \<open>expect(x).to.exist\<close> throws an AssertionError when \<open>x\<close> is \<open>undefined\<close>.
\<close>

definition expect_to_exist :: "'a option \<Rightarrow> js_error + unit" where
  "expect_to_exist x =
     (case x of
        None \<Rightarrow> Inl (JsError ''AssertionError'' ''expected undefined to exist'')
      | Some _ \<Rightarrow> Inr ())"

definition failed_to_open :: "js_error \<Rightarrow> js_error" where
  "failed_to_open e = new_Error (''Failed to open test iModel. Error: '' @ message e)"

text \<open>
  \<open>open\<close>: everything inside the \<open>try\<close> block that throws is caught and rethrown
  wrapped. The assignment to \<open>_iModel\<close> happens once the remote open has resolved,
  before the assertion; the value returned is that of the field \<open>_iModel\<close>, so a
  connection \<open>c\<close> is returned as \<open>Inr (Some c)\<close>.
\<close>

definition IModelSession_open ::
  "'c world \<Rightarrow> 'c IModelSession \<Rightarrow> (js_error + 'c option) \<times> 'c world \<times> 'c IModelSession" where
  "IModelSession_open w this =
     (case Config_App_get w ''imjs_buddi_resolve_url_using_region'' of
        Inl e \<Rightarrow> (Inl (failed_to_open e), w, this)
      | Inr env \<Rightarrow>
          (let w1 = w\<lparr>console := console w @ [''Environment: '' @ env]\<rparr>;
               w2 = w1\<lparr>opens := Suc (opens w1)\<rparr>
           in case RemoteBriefcaseConnection_open w1 (opens w1) (contextId this) (iModelId this) of
                Inl e \<Rightarrow> (Inl (failed_to_open e), w2, this)
              | Inr r \<Rightarrow>
                  (let this' = this\<lparr>priv_iModel := r\<rparr>
                   in case expect_to_exist (priv_iModel this') of
                        Inl e \<Rightarrow> (Inl (failed_to_open e), w2, this')
                      | Inr _ \<Rightarrow> (Inr (priv_iModel this'), w2, this'))))"

text \<open>
  \<open>getConnection\<close>: the conditional expression returns the cached field when it is
  not \<open>undefined\<close> and the result of \<open>open\<close> otherwise.
\<close>

definition IModelSession_getConnection ::
  "'c world \<Rightarrow> 'c IModelSession \<Rightarrow> (js_error + 'c option) \<times> 'c world \<times> 'c IModelSession" where
  "IModelSession_getConnection w this =
     (case priv_iModel this of
        None \<Rightarrow> IModelSession_open w this
      | Some c \<Rightarrow> (Inr (priv_iModel this), w, this))"

text \<open>A run of \<open>getConnection\<close> calls on one session, one after the other.\<close>

fun getConnection_times ::
  "nat \<Rightarrow> 'c world \<Rightarrow> 'c IModelSession
     \<Rightarrow> (js_error + 'c option) list \<times> 'c world \<times> 'c IModelSession" where
  "getConnection_times 0 w this = ([], w, this)"
| "getConnection_times (Suc n) w this =
     (case IModelSession_getConnection w this of
        (r, w', this') \<Rightarrow>
          (case getConnection_times n w' this' of
             (rs, w'', this'') \<Rightarrow> (r # rs, w'', this'')))"

section \<open>MessageCenterField: the message-center status field\<close>

text \<open>
  The enum \<open>OutputMessagePriority\<close> is declared in another package; the component
  names its members \<open>Error\<close> and \<open>Fatal\<close> only. Every other member is
  \<open>OtherPriority n\<close>.
\<close>

datatype OutputMessagePriority = Error | Fatal | OtherPriority nat

datatype MessageCenterActiveTab = AllMessages | Problems

record NotifyMessageDetails =
  priority :: OutputMessagePriority
  briefMessage :: string
  detailedMessage :: "string option"

text \<open>\<open>target\<close> is an element handle or \<open>null\<close>.\<close>

record MessageCenterState =
  activeTab :: MessageCenterActiveTab
  target :: "nat option"
  messageCount :: nat

text \<open>
  One rendered row: the \<open>key\<close> and \<open>icon\<close> of the \<open>MessageCenterMessage\<close> element, the
  message of its first span and, when present, the message of the small-text span.
\<close>

record MessageCenterMessage =
  key :: string
  icon :: string
  message_span :: string
  detail_span :: "string option"

text \<open>
  Arrays are objects: \<open>reverse\<close> changes the array it is called on, \<open>slice\<close> makes a
  new one. The heap holds the array that \<open>MessageManager.messages\<close> evaluates to and
  the arrays allocated since. A reference outside the heap does not arise in
  JavaScript; \<open>array_at\<close> reads it as the empty array.
\<close>

record js_heap =
  MessageManager_messages :: "NotifyMessageDetails list"
  arrays :: "NotifyMessageDetails list list"

datatype array_ref = ManagerMessages | Allocated nat

fun array_at :: "js_heap \<Rightarrow> array_ref \<Rightarrow> NotifyMessageDetails list" where
  "array_at h ManagerMessages = MessageManager_messages h"
| "array_at h (Allocated i) = (if i < length (arrays h) then arrays h ! i else [])"

fun array_update :: "js_heap \<Rightarrow> array_ref \<Rightarrow> NotifyMessageDetails list \<Rightarrow> js_heap" where
  "array_update h ManagerMessages xs = h\<lparr>MessageManager_messages := xs\<rparr>"
| "array_update h (Allocated i) xs = h\<lparr>arrays := (arrays h)[i := xs]\<rparr>"

definition array_slice0 :: "array_ref \<Rightarrow> js_heap \<Rightarrow> array_ref \<times> js_heap" where
  "array_slice0 r h = (Allocated (length (arrays h)), h\<lparr>arrays := arrays h @ [array_at h r]\<rparr>)"

definition array_reverse :: "array_ref \<Rightarrow> js_heap \<Rightarrow> array_ref \<times> js_heap" where
  "array_reverse r h = (r, array_update h r (rev (array_at h r)))"

text \<open>\<open>index.toString()\<close>: the decimal digits of a nonnegative integer.\<close>

fun toString :: "nat \<Rightarrow> string" where
  "toString n =
     (if n < 10 then [''0123456789'' ! n]
      else toString (n div 10) @ [''0123456789'' ! (n mod 10)])"

definition initial_state :: "js_heap \<Rightarrow> MessageCenterState" where
  "initial_state h =
     \<lparr>activeTab = AllMessages, target = None,
      messageCount = length (MessageManager_messages h)\<rparr>"

text \<open>\<open>setState\<close> merges the given fields into the state.\<close>

definition handleMessageAddedEvent ::
  "js_heap \<Rightarrow> NotifyMessageDetails \<Rightarrow> MessageCenterState \<Rightarrow> MessageCenterState" where
  "handleMessageAddedEvent h args st = st\<lparr>messageCount := length (MessageManager_messages h)\<rparr>"

definition changeActiveTab :: "MessageCenterActiveTab \<Rightarrow> MessageCenterState \<Rightarrow> MessageCenterState" where
  "changeActiveTab tab st = st\<lparr>activeTab := tab\<rparr>"

definition isProblemStatus :: "OutputMessagePriority \<Rightarrow> bool" where
  "isProblemStatus priority' = (if priority' = Error \<or> priority' = Fatal then True else False)"

text \<open>
  The row pushed for one message. \<open>details.detailedMessage && ...\<close> renders the second
  span when the detailed message is neither \<open>undefined\<close> nor the empty string.
  \<open>MessageManager.getIconClassName\<close> is defined in another module and is a parameter.
\<close>

definition tabRow ::
  "(NotifyMessageDetails \<Rightarrow> string) \<Rightarrow> nat \<Rightarrow> NotifyMessageDetails \<Rightarrow> MessageCenterMessage" where
  "tabRow getIconClassName index details =
     \<lparr>key = toString index,
      icon = getIconClassName details,
      message_span = briefMessage details,
      detail_span = (case detailedMessage details of
                       None \<Rightarrow> None
                     | Some m \<Rightarrow> if m = [] then None else Some m)\<rparr>"

text \<open>The \<open>forEach\<close> loop of \<open>getMessages\<close>, with its index and the array \<open>tabRows\<close>.\<close>

fun forEach_messages ::
  "(NotifyMessageDetails \<Rightarrow> string) \<Rightarrow> MessageCenterState \<Rightarrow> nat \<Rightarrow> NotifyMessageDetails list
     \<Rightarrow> MessageCenterMessage list \<Rightarrow> MessageCenterMessage list" where
  "forEach_messages getIconClassName st index [] tabRows = tabRows"
| "forEach_messages getIconClassName st index (details # rest) tabRows =
     forEach_messages getIconClassName st (Suc index) rest
       (if activeTab st = AllMessages \<or> isProblemStatus (priority details)
        then tabRows @ [tabRow getIconClassName index details]
        else tabRows)"

definition getMessages ::
  "(NotifyMessageDetails \<Rightarrow> string) \<Rightarrow> MessageCenterState \<Rightarrow> js_heap
     \<Rightarrow> MessageCenterMessage list \<times> js_heap" where
  "getMessages getIconClassName st h =
     (case array_slice0 ManagerMessages h of
        (copy, h1) \<Rightarrow>
          (case array_reverse copy h1 of
             (messages, h2) \<Rightarrow>
               (forEach_messages getIconClassName st 0 (array_at h2 messages) [], h2)))"

text \<open>
  The props of the field, as the component reads them: \<open>openWidget\<close> is a
  \<open>StatusBarFieldId\<close> (a string or \<open>null\<close>), \<open>onOpenWidget\<close> an optional callback. The
  callback belongs to the host of the status bar; it is a function on the host's
  state \<open>'h\<close>.
\<close>

record 'h MessageCenterFieldProps =
  openWidget :: "string option"
  onOpenWidget :: "(string option \<Rightarrow> 'h \<Rightarrow> 'h) option"

definition setOpenWidget :: "'h MessageCenterFieldProps \<Rightarrow> string option \<Rightarrow> 'h \<Rightarrow> 'h" where
  "setOpenWidget props openWidget' host =
     (case onOpenWidget props of
        Some callback \<Rightarrow> callback openWidget' host
      | None \<Rightarrow> host)"

definition handleMessageIndicatorClick :: "string \<Rightarrow> 'h MessageCenterFieldProps \<Rightarrow> 'h \<Rightarrow> 'h" where
  "handleMessageIndicatorClick className props host =
     (let isOpen = (openWidget props = Some className)
      in if isOpen then setOpenWidget props None host
         else setOpenWidget props (Some className) host)"

definition handleClose :: "'h MessageCenterFieldProps \<Rightarrow> 'h \<Rightarrow> 'h" where
  "handleClose props host = setOpenWidget props None host"

text \<open>
  A component instance: its class name and the function object held by its field
  \<open>_handleMessageAddedEvent\<close>, created once with the instance and compared by
  reference.
\<close>

record MessageCenterField =
  className :: string
  handleMessageAddedEvent_ref :: nat

text \<open>
  Modelled from the spec: the event emitter \<open>MessageManager.onMessageAddedEvent\<close> that
  the component subscribes to is defined in another package. It is the list of the
  listeners registered, in the order of registration; \<open>addListener\<close> registers one
  more.
\<close>

definition addListener :: "nat list \<Rightarrow> nat \<Rightarrow> nat list" where
  "addListener listeners listener = listeners @ [listener]"

text \<open>
  Modelled from the spec: \<open>removeListener\<close> of the same event emitter takes out the
  first registration of the listener given and leaves the others as they are.
\<close>

definition removeListener :: "nat list \<Rightarrow> nat \<Rightarrow> nat list" where
  "removeListener listeners listener = remove1 listener listeners"

definition componentDidMount :: "MessageCenterField \<Rightarrow> nat list \<Rightarrow> nat list" where
  "componentDidMount this onMessageAddedEvent =
     addListener onMessageAddedEvent (handleMessageAddedEvent_ref this)"

definition componentWillUnmount :: "MessageCenterField \<Rightarrow> nat list \<Rightarrow> nat list" where
  "componentWillUnmount this onMessageAddedEvent =
     removeListener onMessageAddedEvent (handleMessageAddedEvent_ref this)"

text \<open>
  Calling a listener. A listener is a function object; the one held by the field
  \<open>_handleMessageAddedEvent\<close> of the instance \<open>this\<close> is the arrow function whose body
  is \<open>handleMessageAddedEvent\<close>, closed over \<open>this\<close>. Every other listener belongs to
  some other object: the state of \<open>this\<close> is changed by the component's own methods
  only, so such a call leaves it as it is.
\<close>

definition invoke_listener ::
  "MessageCenterField \<Rightarrow> nat \<Rightarrow> js_heap \<Rightarrow> NotifyMessageDetails
     \<Rightarrow> MessageCenterState \<Rightarrow> MessageCenterState" where
  "invoke_listener this listener h args st =
     (if listener = handleMessageAddedEvent_ref this
      then handleMessageAddedEvent h args st
      else st)"

text \<open>
  Modelled from the spec: \<open>emit\<close> of the same event emitter, by which
  \<open>MessageManager\<close> raises the message-added event, is defined in another package. It
  calls the listeners registered, each once per registration and in the order of
  registration, with the arguments of the event. The heap \<open>h\<close> is the heap at the
  time of the event, with the message already added.
\<close>

fun emit ::
  "MessageCenterField \<Rightarrow> nat list \<Rightarrow> js_heap \<Rightarrow> NotifyMessageDetails
     \<Rightarrow> MessageCenterState \<Rightarrow> MessageCenterState" where
  "emit this [] h args st = st"
| "emit this (listener # listeners) h args st =
     emit this listeners h args (invoke_listener this listener h args st)"

text \<open>
  A run of message-added events raised one after the other on the same listeners,
  each with the heap as it is at that event and the event's arguments.
\<close>

fun emit_events ::
  "MessageCenterField \<Rightarrow> nat list \<Rightarrow> (js_heap \<times> NotifyMessageDetails) list
     \<Rightarrow> MessageCenterState \<Rightarrow> MessageCenterState" where
  "emit_events this listeners [] st = st"
| "emit_events this listeners ((h, args) # evs) st =
     emit_events this listeners evs (emit this listeners h args st)"

section \<open>Properties of IModelSession\<close>

subsection \<open>The outcomes of \<open>open\<close> and \<open>getConnection\<close>\<close>

lemma open_config_throws:
  "Config_App_get w ''imjs_buddi_resolve_url_using_region'' = Inl e \<Longrightarrow>
   IModelSession_open w this = (Inl (failed_to_open e), w, this)"
  by (simp add: IModelSession_open_def)

lemma open_remote_throws:
  "Config_App_get w ''imjs_buddi_resolve_url_using_region'' = Inr env \<Longrightarrow>
   RemoteBriefcaseConnection_open w (opens w) (contextId this) (iModelId this) = Inl e \<Longrightarrow>
   IModelSession_open w this =
     (Inl (failed_to_open e),
      w\<lparr>console := console w @ [''Environment: '' @ env], opens := Suc (opens w)\<rparr>, this)"
  by (simp add: IModelSession_open_def Let_def)

lemma open_remote_undefined:
  "Config_App_get w ''imjs_buddi_resolve_url_using_region'' = Inr env \<Longrightarrow>
   RemoteBriefcaseConnection_open w (opens w) (contextId this) (iModelId this) = Inr None \<Longrightarrow>
   IModelSession_open w this =
     (Inl (failed_to_open (JsError ''AssertionError'' ''expected undefined to exist'')),
      w\<lparr>console := console w @ [''Environment: '' @ env], opens := Suc (opens w)\<rparr>,
      this\<lparr>priv_iModel := None\<rparr>)"
  by (simp add: IModelSession_open_def Let_def expect_to_exist_def)

lemma open_remote_resolves:
  "Config_App_get w ''imjs_buddi_resolve_url_using_region'' = Inr env \<Longrightarrow>
   RemoteBriefcaseConnection_open w (opens w) (contextId this) (iModelId this) = Inr (Some c) \<Longrightarrow>
   IModelSession_open w this =
     (Inr (Some c),
      w\<lparr>console := console w @ [''Environment: '' @ env], opens := Suc (opens w)\<rparr>,
      this\<lparr>priv_iModel := Some c\<rparr>)"
  by (simp add: IModelSession_open_def Let_def expect_to_exist_def)

text \<open>A call of \<open>open\<close> that returns has a connection to return and has cached it.\<close>

lemma open_success_caches:
  assumes "IModelSession_open w this = (Inr r, w', this')"
  shows "\<exists>c. r = Some c \<and> priv_iModel this' = Some c"
proof (cases "Config_App_get w ''imjs_buddi_resolve_url_using_region''")
  case (Inl e)
  with assms show ?thesis by (simp add: open_config_throws)
next
  case (Inr env)
  show ?thesis
  proof (cases "RemoteBriefcaseConnection_open w (opens w) (contextId this) (iModelId this)")
    case (Inl e)
    with assms Inr show ?thesis by (simp add: open_remote_throws)
  next
    case outcome: (Inr x)
    show ?thesis
    proof (cases x)
      case None
      with assms Inr outcome show ?thesis by (simp add: open_remote_undefined)
    next
      case (Some c)
      with assms Inr outcome show ?thesis by (auto simp add: open_remote_resolves)
    qed
  qed
qed

lemma getConnection_cached:
  "priv_iModel this = Some c \<Longrightarrow> IModelSession_getConnection w this = (Inr (Some c), w, this)"
  by (simp add: IModelSession_getConnection_def)

lemma getConnection_times_cached:
  "priv_iModel this = Some c \<Longrightarrow>
   getConnection_times n w this = (replicate n (Inr (Some c)), w, this)"
  by (induction n) (simp_all add: getConnection_cached)

lemma open_ids:
  "contextId (snd (snd (IModelSession_open w this))) = contextId this \<and>
   iModelId (snd (snd (IModelSession_open w this))) = iModelId this"
  by (simp add: IModelSession_open_def Let_def split: sum.splits)

subsection \<open>The outcomes of \<open>create\<close>\<close>

lemma create_project_lookup_throws:
  "useProjectName d \<Longrightarrow> getProject w (project_filter d) = Inl e \<Longrightarrow>
   IModelSession_create w d = (Inl e, w)"
  by (simp add: IModelSession_create_def)

lemma create_iModel_missing:
  assumes "useName d"
    and "if useProjectName d
         then \<exists>p. getProject w (project_filter d) = Inr p \<and> wsgId p = cid
         else projectId d = cid"
    and "iModels_get w cid (name d) = Inr None \<or> iModels_get w cid (name d) = Inr (Some [])"
  shows "IModelSession_create w d = (Inl (new_Error (missing_iModel_message d cid)), w)"
  using assms by (auto simp add: IModelSession_create_def split: if_splits)

subsection \<open>Failed lookups in \<open>create\<close>\<close>

text \<open>
  C1, as amended. \<open>create\<close> has a check of its own for the iModel lookup only. When
  \<open>useName\<close> is true, the context id has been resolved to \<open>cid\<close> and the by-name query
  returns \<open>undefined\<close> or an empty list, \<open>create\<close> throws the Error
  "The iModel <name> does not exist in project <cid>.", which names the iModel asked
  for and the project. When \<open>useProjectName\<close> is true and the project lookup fails with
  an error \<open>e\<close>, \<open>create\<close> fails with that same \<open>e\<close>, adding no message of its own.
  In both cases no session is returned and nothing is logged.
\<close>

theorem create_failed_lookup_no_session:
  "(useProjectName d \<and> getProject w (project_filter d) = Inl e
      \<longrightarrow> IModelSession_create w d = (Inl e, w))
   \<and> (useName d
      \<and> (if useProjectName d
          then \<exists>p. getProject w (project_filter d) = Inr p \<and> wsgId p = cid
          else projectId d = cid)
      \<and> (iModels_get w cid (name d) = Inr None \<or> iModels_get w cid (name d) = Inr (Some []))
      \<longrightarrow> IModelSession_create w d
            = (Inl (new_Error (''The iModel '' @ name d @ '' does not exist in project ''
                                @ cid @ ''.'')), w))"
  using create_project_lookup_throws [of d w e] create_iModel_missing [of d w cid]
  by (simp add: missing_iModel_message_def)

text \<open>
  Witness: a project lookup that fails with "lookup failed", and a by-name query that
  returns an empty list for the iModel "m" in the project "p1".
\<close>

theorem create_failed_lookup_no_session_witness:
  "fst (IModelSession_create
     \<lparr>getProject = (\<lambda>_. Inl (new_Error ''lookup failed'')),
      iModels_get = (\<lambda>_ _. Inr (Some [])),
      Config_App_get = (\<lambda>_. Inr ''0''),
      RemoteBriefcaseConnection_open = (\<lambda>_ _ _. Inr (Some (0::nat))),
      opens = 0, console = []\<rparr>
     \<lparr>useName = True, id_field = ''i1'', name = ''m'', useProjectName = True,
      projectId = ''p1'', projectName = ''Plant'', changeSetId = ''c1''\<rparr>)
   = Inl (new_Error ''lookup failed'')
   \<and> fst (IModelSession_create
     \<lparr>getProject = (\<lambda>_. Inl (new_Error ''lookup failed'')),
      iModels_get = (\<lambda>_ _. Inr (Some [])),
      Config_App_get = (\<lambda>_. Inr ''0''),
      RemoteBriefcaseConnection_open = (\<lambda>_ _ _. Inr (Some (0::nat))),
      opens = 0, console = []\<rparr>
     \<lparr>useName = True, id_field = ''i1'', name = ''m'', useProjectName = False,
      projectId = ''p1'', projectName = ''Plant'', changeSetId = ''c1''\<rparr>)
   = Inl (new_Error ''The iModel m does not exist in project p1.'')"
  using create_failed_lookup_no_session
    [where d = "\<lparr>useName = True, id_field = ''i1'', name = ''m'', useProjectName = True,
                  projectId = ''p1'', projectName = ''Plant'', changeSetId = ''c1''\<rparr>"
       and w = "\<lparr>getProject = (\<lambda>_. Inl (new_Error ''lookup failed'')),
                  iModels_get = (\<lambda>_ _. Inr (Some [])),
                  Config_App_get = (\<lambda>_. Inr ''0''),
                  RemoteBriefcaseConnection_open = (\<lambda>_ _ _. Inr (Some (0::nat))),
                  opens = 0, console = []\<rparr>"
       and e = "new_Error ''lookup failed''"]
    create_failed_lookup_no_session
    [where d = "\<lparr>useName = True, id_field = ''i1'', name = ''m'', useProjectName = False,
                  projectId = ''p1'', projectName = ''Plant'', changeSetId = ''c1''\<rparr>"
       and w = "\<lparr>getProject = (\<lambda>_. Inl (new_Error ''lookup failed'')),
                  iModels_get = (\<lambda>_ _. Inr (Some [])),
                  Config_App_get = (\<lambda>_. Inr ''0''),
                  RemoteBriefcaseConnection_open = (\<lambda>_ _ _. Inr (Some (0::nat))),
                  opens = 0, console = []\<rparr>"
       and cid = "''p1''"]
  by simp

text \<open>
  C1 as stated fails for the project lookup: with \<open>useProjectName\<close> true and a lookup of
  the project "Plant" that fails with the message "lookup failed", the error that
  \<open>create\<close> throws is that very error, and its message does not name the project.
\<close>

theorem create_project_lookup_counterexample:
  "fst (IModelSession_create
     \<lparr>getProject = (\<lambda>_. Inl (new_Error ''lookup failed'')),
      iModels_get = (\<lambda>_ _. Inr (Some [])),
      Config_App_get = (\<lambda>_. Inr ''0''),
      RemoteBriefcaseConnection_open = (\<lambda>_ _ _. Inr (Some (0::nat))),
      opens = 0, console = []\<rparr>
     \<lparr>useName = False, id_field = ''i1'', name = ''m'', useProjectName = True,
      projectId = ''p1'', projectName = ''Plant'', changeSetId = ''c1''\<rparr>)
   = Inl (new_Error ''lookup failed'')
   \<and> \<not> sublist ''Plant'' ''lookup failed''"
  apply (rule conjI)
   apply (simp add: IModelSession_create_def)
  apply code_simp
  done

subsection \<open>Failure and success of \<open>open\<close>\<close>

text \<open>
  C2. When the remote connection attempt is made (the configuration lookup before it
  has returned) and fails with an error \<open>e\<close>, \<open>open\<close> throws the Error with the message
  "Failed to open test iModel. Error: " followed by the message of \<open>e\<close>. When the
  attempt resolves with a connection \<open>c\<close>, \<open>open\<close> throws nothing, returns \<open>c\<close> and has
  stored it in \<open>_iModel\<close>.
\<close>

theorem open_wraps_failure_or_returns_connection:
  "(Config_App_get w ''imjs_buddi_resolve_url_using_region'' = Inr env \<and>
    RemoteBriefcaseConnection_open w (opens w) (contextId this) (iModelId this) = Inl e
      \<longrightarrow> fst (IModelSession_open w this)
            = Inl (new_Error (''Failed to open test iModel. Error: '' @ message e)))
   \<and> (Config_App_get w ''imjs_buddi_resolve_url_using_region'' = Inr env \<and>
      RemoteBriefcaseConnection_open w (opens w) (contextId this) (iModelId this) = Inr (Some c)
      \<longrightarrow> fst (IModelSession_open w this) = Inr (Some c)
          \<and> priv_iModel (snd (snd (IModelSession_open w this))) = Some c)"
  by (simp add: open_remote_throws open_remote_resolves failed_to_open_def)

text \<open>
  Witness: a remote open that fails with "not found", and one that resolves with the
  connection 7.
\<close>

theorem open_wraps_failure_or_returns_connection_witness:
  "fst (IModelSession_open
     \<lparr>getProject = (\<lambda>_. Inr \<lparr>wsgId = ''p1''\<rparr>),
      iModels_get = (\<lambda>_ _. Inr None),
      Config_App_get = (\<lambda>_. Inr ''0''),
      RemoteBriefcaseConnection_open = (\<lambda>_ _ _. Inl (new_Error ''not found'')),
      opens = 0, console = []\<rparr>
     \<lparr>contextId = ''p1'', iModelId = ''i1'', priv_iModel = (None :: nat option)\<rparr>)
   = Inl (new_Error ''Failed to open test iModel. Error: not found'')
   \<and> fst (IModelSession_open
     \<lparr>getProject = (\<lambda>_. Inr \<lparr>wsgId = ''p1''\<rparr>),
      iModels_get = (\<lambda>_ _. Inr None),
      Config_App_get = (\<lambda>_. Inr ''0''),
      RemoteBriefcaseConnection_open = (\<lambda>_ _ _. Inr (Some 7)),
      opens = 0, console = []\<rparr>
     \<lparr>contextId = ''p1'', iModelId = ''i1'', priv_iModel = (None :: nat option)\<rparr>)
   = Inr (Some 7)"
  using open_wraps_failure_or_returns_connection
    [where w = "\<lparr>getProject = (\<lambda>_. Inr \<lparr>wsgId = ''p1''\<rparr>),
                  iModels_get = (\<lambda>_ _. Inr None),
                  Config_App_get = (\<lambda>_. Inr ''0''),
                  RemoteBriefcaseConnection_open = (\<lambda>_ _ _. Inl (new_Error ''not found'')),
                  opens = 0, console = []\<rparr>"
       and this = "\<lparr>contextId = ''p1'', iModelId = ''i1'', priv_iModel = (None :: nat option)\<rparr>"
       and env = "''0''" and e = "new_Error ''not found''"]
    open_wraps_failure_or_returns_connection
    [where w = "\<lparr>getProject = (\<lambda>_. Inr \<lparr>wsgId = ''p1''\<rparr>),
                  iModels_get = (\<lambda>_ _. Inr None),
                  Config_App_get = (\<lambda>_. Inr ''0''),
                  RemoteBriefcaseConnection_open = (\<lambda>_ _ _. Inr (Some 7)),
                  opens = 0, console = []\<rparr>"
       and this = "\<lparr>contextId = ''p1'', iModelId = ''i1'', priv_iModel = (None :: nat option)\<rparr>"
       and env = "''0''" and c = "7"]
  by simp

subsection \<open>The cached connection\<close>

text \<open>
  C3. The connection is created lazily and memoized. \<open>getConnection\<close> on a session
  with no cached connection is \<open>open\<close>; on a session with a cached connection it
  returns that connection and leaves the world as it is (no remote open, the counter
  \<open>opens\<close> included). Once a call of \<open>open\<close> has returned, its result is a connection
  and any number of \<open>getConnection\<close> calls on the session it left, in whatever world,
  return that same connection and change neither the world nor the session.
\<close>

theorem getConnection_lazy_and_memoized:
  "(priv_iModel this = None \<longrightarrow> IModelSession_getConnection w this = IModelSession_open w this)
   \<and> (priv_iModel this \<noteq> None \<longrightarrow>
        IModelSession_getConnection w this = (Inr (priv_iModel this), w, this))
   \<and> (IModelSession_open w this = (Inr r, w', this') \<longrightarrow>
        (\<exists>c. r = Some c) \<and>
        getConnection_times n w'' this' = (replicate n (Inr r), w'', this'))"
proof (intro conjI impI)
  show "IModelSession_getConnection w this = IModelSession_open w this"
    if "priv_iModel this = None"
    using that by (simp add: IModelSession_getConnection_def)
  show "IModelSession_getConnection w this = (Inr (priv_iModel this), w, this)"
    if "priv_iModel this \<noteq> None"
    using that by (auto simp add: IModelSession_getConnection_def)
  assume ok: "IModelSession_open w this = (Inr r, w', this')"
  then obtain c where c: "r = Some c" "priv_iModel this' = Some c"
    using open_success_caches by blast
  from c show "\<exists>c. r = Some c" by blast
  from c show "getConnection_times n w'' this' = (replicate n (Inr r), w'', this')"
    by (simp add: getConnection_times_cached)
qed

text \<open>
  Witness: a fresh session whose remote open resolves with the connection 7; the
  session it leaves answers two further \<open>getConnection\<close> calls from the cache.
\<close>

theorem getConnection_lazy_and_memoized_witness:
  "IModelSession_getConnection
     \<lparr>getProject = (\<lambda>_. Inr \<lparr>wsgId = ''p1''\<rparr>),
      iModels_get = (\<lambda>_ _. Inr None),
      Config_App_get = (\<lambda>_. Inr ''0''),
      RemoteBriefcaseConnection_open = (\<lambda>_ _ _. Inr (Some 7)),
      opens = 0, console = []\<rparr>
     \<lparr>contextId = ''p1'', iModelId = ''i1'', priv_iModel = (None :: nat option)\<rparr>
   = (Inr (Some 7),
      \<lparr>getProject = (\<lambda>_. Inr \<lparr>wsgId = ''p1''\<rparr>),
       iModels_get = (\<lambda>_ _. Inr None),
       Config_App_get = (\<lambda>_. Inr ''0''),
       RemoteBriefcaseConnection_open = (\<lambda>_ _ _. Inr (Some 7)),
       opens = 1, console = [''Environment: 0'']\<rparr>,
      \<lparr>contextId = ''p1'', iModelId = ''i1'', priv_iModel = Some 7\<rparr>)
   \<and> getConnection_times 2
       \<lparr>getProject = (\<lambda>_. Inr \<lparr>wsgId = ''p1''\<rparr>),
        iModels_get = (\<lambda>_ _. Inr None),
        Config_App_get = (\<lambda>_. Inr ''0''),
        RemoteBriefcaseConnection_open = (\<lambda>_ _ _. Inr (Some 7)),
        opens = 1, console = [''Environment: 0'']\<rparr>
       \<lparr>contextId = ''p1'', iModelId = ''i1'', priv_iModel = Some (7::nat)\<rparr>
     = ([Inr (Some 7), Inr (Some 7)],
        \<lparr>getProject = (\<lambda>_. Inr \<lparr>wsgId = ''p1''\<rparr>),
         iModels_get = (\<lambda>_ _. Inr None),
         Config_App_get = (\<lambda>_. Inr ''0''),
         RemoteBriefcaseConnection_open = (\<lambda>_ _ _. Inr (Some 7)),
         opens = 1, console = [''Environment: 0'']\<rparr>,
        \<lparr>contextId = ''p1'', iModelId = ''i1'', priv_iModel = Some 7\<rparr>)
   \<and> IModelSession_getConnection
       \<lparr>getProject = (\<lambda>_. Inr \<lparr>wsgId = ''p1''\<rparr>),
        iModels_get = (\<lambda>_ _. Inr None),
        Config_App_get = (\<lambda>_. Inr ''0''),
        RemoteBriefcaseConnection_open = (\<lambda>_ _ _. Inl (new_Error ''not found'')),
        opens = 1, console = []\<rparr>
       \<lparr>contextId = ''p1'', iModelId = ''i1'', priv_iModel = Some (7::nat)\<rparr>
     = (Inr (Some 7),
        \<lparr>getProject = (\<lambda>_. Inr \<lparr>wsgId = ''p1''\<rparr>),
         iModels_get = (\<lambda>_ _. Inr None),
         Config_App_get = (\<lambda>_. Inr ''0''),
         RemoteBriefcaseConnection_open = (\<lambda>_ _ _. Inl (new_Error ''not found'')),
         opens = 1, console = []\<rparr>,
        \<lparr>contextId = ''p1'', iModelId = ''i1'', priv_iModel = Some 7\<rparr>)"
  using getConnection_lazy_and_memoized
    [where this = "\<lparr>contextId = ''p1'', iModelId = ''i1'', priv_iModel = (None :: nat option)\<rparr>"
       and w = "\<lparr>getProject = (\<lambda>_. Inr \<lparr>wsgId = ''p1''\<rparr>),
                  iModels_get = (\<lambda>_ _. Inr None),
                  Config_App_get = (\<lambda>_. Inr ''0''),
                  RemoteBriefcaseConnection_open = (\<lambda>_ _ _. Inr (Some 7)),
                  opens = 0, console = []\<rparr>"
       and r = "Some 7"
       and w' = "\<lparr>getProject = (\<lambda>_. Inr \<lparr>wsgId = ''p1''\<rparr>),
                   iModels_get = (\<lambda>_ _. Inr None),
                   Config_App_get = (\<lambda>_. Inr ''0''),
                   RemoteBriefcaseConnection_open = (\<lambda>_ _ _. Inr (Some 7)),
                   opens = 1, console = [''Environment: 0'']\<rparr>"
       and this' = "\<lparr>contextId = ''p1'', iModelId = ''i1'', priv_iModel = Some 7\<rparr>"
       and n = "Suc (Suc 0)"
       and w'' = "\<lparr>getProject = (\<lambda>_. Inr \<lparr>wsgId = ''p1''\<rparr>),
                    iModels_get = (\<lambda>_ _. Inr None),
                    Config_App_get = (\<lambda>_. Inr ''0''),
                    RemoteBriefcaseConnection_open = (\<lambda>_ _ _. Inr (Some 7)),
                    opens = 1, console = [''Environment: 0'']\<rparr>"]
    getConnection_lazy_and_memoized
    [where this = "\<lparr>contextId = ''p1'', iModelId = ''i1'', priv_iModel = Some (7::nat)\<rparr>"
       and w = "\<lparr>getProject = (\<lambda>_. Inr \<lparr>wsgId = ''p1''\<rparr>),
                  iModels_get = (\<lambda>_ _. Inr None),
                  Config_App_get = (\<lambda>_. Inr ''0''),
                  RemoteBriefcaseConnection_open = (\<lambda>_ _ _. Inl (new_Error ''not found'')),
                  opens = 1, console = []\<rparr>"]
  by (simp add: IModelSession_open_def Let_def expect_to_exist_def numeral_2_eq_2)

subsection \<open>The identifiers stored by \<open>create\<close>\<close>

text \<open>
  C4. A session returned by \<open>create\<close> stores two identifiers and no connection yet.
  \<open>contextId\<close> is \<open>iModelData.projectId\<close> when \<open>useProjectName\<close> is false and
  otherwise the \<open>wsgId\<close> of the project that the lookup by name returned; \<open>iModelId\<close>
  is \<open>iModelData.id\<close> when \<open>useName\<close> is false and otherwise the \<open>wsgId\<close> of the first
  iModel of the list that the by-name query returned for that context id.
\<close>

theorem create_stores_resolved_ids:
  assumes "IModelSession_create w d = (Inr s, w')"
  shows "(if useProjectName d
          then \<exists>p. getProject w (project_filter d) = Inr p \<and> contextId s = wsgId p
          else contextId s = projectId d)
       \<and> (if useName d
          then \<exists>m ms. iModels_get w (contextId s) (name d) = Inr (Some (m # ms))
                 \<and> iModelId s = wsgId m
          else iModelId s = id_field d)
       \<and> priv_iModel s = None"
  using assms
  by (auto simp add: IModelSession_create_def
      split: if_splits sum.splits option.splits list.splits)

text \<open>
  Witness: the project "Plant" resolves to "p9", and the by-name query for "m" in
  "p9" returns two iModels, "i9" first.
\<close>

theorem create_stores_resolved_ids_witness:
  "IModelSession_create
     \<lparr>getProject = (\<lambda>f. if f = ''Name+eq+'' @ [CHR 0x27] @ ''Plant'' @ [CHR 0x27]
                         then Inr \<lparr>wsgId = ''p9''\<rparr> else Inl (new_Error ''lookup failed'')),
      iModels_get = (\<lambda>c n. if c = ''p9'' \<and> n = ''m''
                            then Inr (Some [\<lparr>wsgId = ''i9''\<rparr>, \<lparr>wsgId = ''i8''\<rparr>])
                            else Inr (Some [])),
      Config_App_get = (\<lambda>_. Inr ''0''),
      RemoteBriefcaseConnection_open = (\<lambda>_ _ _. Inr (Some (7::nat))),
      opens = 0, console = []\<rparr>
     \<lparr>useName = True, id_field = ''i1'', name = ''m'', useProjectName = True,
      projectId = ''p1'', projectName = ''Plant'', changeSetId = ''c1''\<rparr>
   = (Inr \<lparr>contextId = ''p9'', iModelId = ''i9'', priv_iModel = None\<rparr>,
      \<lparr>getProject = (\<lambda>f. if f = ''Name+eq+'' @ [CHR 0x27] @ ''Plant'' @ [CHR 0x27]
                         then Inr \<lparr>wsgId = ''p9''\<rparr> else Inl (new_Error ''lookup failed'')),
       iModels_get = (\<lambda>c n. if c = ''p9'' \<and> n = ''m''
                             then Inr (Some [\<lparr>wsgId = ''i9''\<rparr>, \<lparr>wsgId = ''i8''\<rparr>])
                             else Inr (Some [])),
       Config_App_get = (\<lambda>_. Inr ''0''),
       RemoteBriefcaseConnection_open = (\<lambda>_ _ _. Inr (Some 7)),
       opens = 0,
       console = [''Using iModel { name:m, id:i1, projectId:p1, changesetId:c1 }'']\<rparr>)
   \<and> contextId (\<lparr>contextId = ''p9'', iModelId = ''i9'', priv_iModel = None\<rparr>
                  :: nat IModelSession) = ''p9''
   \<and> iModelId (\<lparr>contextId = ''p9'', iModelId = ''i9'', priv_iModel = None\<rparr>
                  :: nat IModelSession) = ''i9''"
  using create_stores_resolved_ids
    [where w = "\<lparr>getProject = (\<lambda>f. if f = ''Name+eq+'' @ [CHR 0x27] @ ''Plant'' @ [CHR 0x27]
                         then Inr \<lparr>wsgId = ''p9''\<rparr> else Inl (new_Error ''lookup failed'')),
                  iModels_get = (\<lambda>c n. if c = ''p9'' \<and> n = ''m''
                            then Inr (Some [\<lparr>wsgId = ''i9''\<rparr>, \<lparr>wsgId = ''i8''\<rparr>])
                            else Inr (Some [])),
                  Config_App_get = (\<lambda>_. Inr ''0''),
                  RemoteBriefcaseConnection_open = (\<lambda>_ _ _. Inr (Some (7::nat))),
                  opens = 0, console = []\<rparr>"
       and d = "\<lparr>useName = True, id_field = ''i1'', name = ''m'', useProjectName = True,
                  projectId = ''p1'', projectName = ''Plant'', changeSetId = ''c1''\<rparr>"
       and s = "\<lparr>contextId = ''p9'', iModelId = ''i9'', priv_iModel = None\<rparr>"
       and w' = "\<lparr>getProject = (\<lambda>f. if f = ''Name+eq+'' @ [CHR 0x27] @ ''Plant'' @ [CHR 0x27]
                         then Inr \<lparr>wsgId = ''p9''\<rparr> else Inl (new_Error ''lookup failed'')),
                   iModels_get = (\<lambda>c n. if c = ''p9'' \<and> n = ''m''
                             then Inr (Some [\<lparr>wsgId = ''i9''\<rparr>, \<lparr>wsgId = ''i8''\<rparr>])
                             else Inr (Some [])),
                   Config_App_get = (\<lambda>_. Inr ''0''),
                   RemoteBriefcaseConnection_open = (\<lambda>_ _ _. Inr (Some 7)),
                   opens = 0,
                   console = [''Using iModel { name:m, id:i1, projectId:p1, changesetId:c1 }'']\<rparr>"]
  by (simp add: IModelSession_create_def project_filter_def using_iModel_line_def)

subsection \<open>The frame of \<open>open\<close> and \<open>getConnection\<close>\<close>

text \<open>
  C10. \<open>open\<close> and \<open>getConnection\<close> assign to the field \<open>_iModel\<close> only: whether the
  call returns or throws, the session it leaves has the \<open>contextId\<close> and the
  \<open>iModelId\<close> it had before.
\<close>

theorem open_getConnection_keep_ids:
  "contextId (snd (snd (IModelSession_open w this))) = contextId this
   \<and> iModelId (snd (snd (IModelSession_open w this))) = iModelId this
   \<and> contextId (snd (snd (IModelSession_getConnection w this))) = contextId this
   \<and> iModelId (snd (snd (IModelSession_getConnection w this))) = iModelId this"
  by (simp add: open_ids IModelSession_getConnection_def split: option.splits)

section \<open>Properties of MessageCenterField\<close>

subsection \<open>The rows of \<open>getMessages\<close>\<close>

lemma isProblemStatus_iff: "isProblemStatus p \<longleftrightarrow> p = Error \<or> p = Fatal"
  by (simp add: isProblemStatus_def)

text \<open>
  The loop appends to \<open>tabRows\<close> one row for each element that passes the test, in
  the order of the array, with the element's index in the array as its key.
\<close>

lemma forEach_messages_filter:
  "forEach_messages gi st index xs tabRows =
     tabRows @ map (\<lambda>(i, d). tabRow gi i d)
       (filter (\<lambda>(i, d). activeTab st = AllMessages \<or> isProblemStatus (priority d))
          (enumerate index xs))"
  by (induction xs arbitrary: index tabRows) simp_all

text \<open>
  \<open>reverse\<close> works in place: called on the manager's own array it would change it.
  \<open>getMessages\<close> calls it on the array that \<open>slice(0)\<close> has allocated.
\<close>

lemma array_reverse_in_place:
  "MessageManager_messages (snd (array_reverse ManagerMessages h)) = rev (MessageManager_messages h)"
  by (simp add: array_reverse_def)

lemma getMessages_unfold:
  "getMessages gi st h =
     (forEach_messages gi st 0 (rev (MessageManager_messages h)) [],
      h\<lparr>arrays := arrays h @ [rev (MessageManager_messages h)]\<rparr>)"
  by (simp add: getMessages_def array_slice0_def array_reverse_def)

lemma map_snd_filter_enumerate:
  "map snd (filter (\<lambda>(i, d). P d) (enumerate n xs)) = filter P xs"
  by (induction xs arbitrary: n) simp_all

lemma message_span_rows:
  "map message_span (map (\<lambda>(i, d). tabRow gi i d) ps) = map briefMessage (map snd ps)"
  by (induction ps) (auto simp add: tabRow_def)

text \<open>
  C5. The rows of \<open>getMessages\<close> are the messages filtered by a boolean predicate.
  Numbering the messages of \<open>MessageManager.messages\<close> from the most recent one, the
  rows are exactly the rows of those messages for which the active tab is
  \<open>AllMessages\<close> or the priority is \<open>Error\<close> or \<open>Fatal\<close>, one row each, keyed by the
  message's number; and \<open>isProblemStatus\<close> is true for exactly those two priorities.
\<close>

theorem getMessages_rows_filtered:
  "fst (getMessages gi st h) =
     map (\<lambda>(i, d). tabRow gi i d)
       (filter (\<lambda>(i, d). activeTab st = AllMessages \<or> priority d = Error \<or> priority d = Fatal)
          (enumerate 0 (rev (MessageManager_messages h))))
   \<and> (isProblemStatus p \<longleftrightarrow> p = Error \<or> p = Fatal)"
  by (simp add: getMessages_unfold forEach_messages_filter isProblemStatus_iff)

text \<open>
  C8. \<open>getMessages\<close> presents the messages in the reverse of their order in
  \<open>MessageManager.messages\<close>, most recent first, and works on a copy: after the call
  the manager's array holds what it held before, in the same order, and so does every
  array that existed before the call.
\<close>

theorem getMessages_reverse_on_copy:
  "MessageManager_messages (snd (getMessages gi st h)) = MessageManager_messages h
   \<and> take (length (arrays h)) (arrays (snd (getMessages gi st h))) = arrays h
   \<and> map message_span (fst (getMessages gi st h)) =
       map briefMessage
         (filter (\<lambda>d. activeTab st = AllMessages \<or> isProblemStatus (priority d))
            (rev (MessageManager_messages h)))"
proof -
  let ?P = "\<lambda>d. activeTab st = AllMessages \<or> isProblemStatus (priority d)"
  let ?ps = "filter (\<lambda>(i, d). ?P d) (enumerate 0 (rev (MessageManager_messages h)))"
  have rows: "fst (getMessages gi st h) = map (\<lambda>(i, d). tabRow gi i d) ?ps"
    by (simp add: getMessages_unfold forEach_messages_filter)
  have "map message_span (fst (getMessages gi st h)) = map briefMessage (map snd ?ps)"
    unfolding rows by (rule message_span_rows)
  also have "map snd ?ps = filter ?P (rev (MessageManager_messages h))"
    by (rule map_snd_filter_enumerate)
  finally have order: "map message_span (fst (getMessages gi st h)) =
      map briefMessage (filter ?P (rev (MessageManager_messages h)))" .
  have frame: "MessageManager_messages (snd (getMessages gi st h)) = MessageManager_messages h"
    "take (length (arrays h)) (arrays (snd (getMessages gi st h))) = arrays h"
    by (simp_all add: getMessages_unfold)
  from frame order show ?thesis by blast
qed

subsection \<open>The indicator click\<close>

lemma click_request:
  "onOpenWidget props = Some callback \<Longrightarrow>
   handleMessageIndicatorClick cls props host =
     callback (if openWidget props = Some cls then None else Some cls) host"
  by (simp add: handleMessageIndicatorClick_def setOpenWidget_def)

text \<open>Without a callback in the props a click requests nothing.\<close>

lemma click_without_callback:
  "onOpenWidget props = None \<Longrightarrow> handleMessageIndicatorClick cls props host = host"
  by (simp add: handleMessageIndicatorClick_def setOpenWidget_def)

text \<open>
  C6. A click on the indicator toggles the panel. With the callback \<open>onOpenWidget\<close>
  in the props, the click calls it once: with \<open>null\<close> when \<open>props.openWidget\<close> is the
  component's class name (the panel is open), with the class name otherwise. When the
  props then carry what the first click requested, a second click requests the class
  name exactly when the panel was open at the start: two clicks ask for the open or
  closed state the panel started in.
\<close>

theorem indicator_click_toggles:
  assumes "onOpenWidget props = Some callback"
  shows "handleMessageIndicatorClick cls props host =
           callback (if openWidget props = Some cls then None else Some cls) host
       \<and> handleMessageIndicatorClick cls
           (props\<lparr>openWidget := (if openWidget props = Some cls then None else Some cls)\<rparr>) host' =
           callback (if openWidget props = Some cls then Some cls else None) host'"
  using assms by (simp add: click_request)

text \<open>
  Witness: the host records the requests. The panel is open; the first click requests
  \<open>null\<close>, the second the class name.
\<close>

theorem indicator_click_toggles_witness:
  "onOpenWidget \<lparr>openWidget = Some ''MessageCenterField'',
                 onOpenWidget = Some (\<lambda>w (trace :: string option list). trace @ [w])\<rparr>
     = Some (\<lambda>w trace. trace @ [w])
   \<and> handleMessageIndicatorClick ''MessageCenterField''
       \<lparr>openWidget = Some ''MessageCenterField'',
        onOpenWidget = Some (\<lambda>w (trace :: string option list). trace @ [w])\<rparr> [] = [None]
   \<and> handleMessageIndicatorClick ''MessageCenterField''
       \<lparr>openWidget = None,
        onOpenWidget = Some (\<lambda>w (trace :: string option list). trace @ [w])\<rparr> [None]
       = [None, Some ''MessageCenterField'']"
  using indicator_click_toggles
    [of "\<lparr>openWidget = Some ''MessageCenterField'',
          onOpenWidget = Some (\<lambda>w (trace :: string option list). trace @ [w])\<rparr>"
        "\<lambda>w trace. trace @ [w]" "''MessageCenterField''" "[]" "[None]"]
  by simp

subsection \<open>The message count\<close>

lemma invoke_listener_count:
  "messageCount (invoke_listener this l h args st) =
     (if l = handleMessageAddedEvent_ref this then length (MessageManager_messages h)
      else messageCount st)"
  by (simp add: invoke_listener_def handleMessageAddedEvent_def)

text \<open>
  An event reaches the handler exactly when the handler is among the listeners: then
  the count is the length of the list, otherwise the state is the one before.
\<close>

lemma emit_count:
  "messageCount (emit this ls h args st) =
     (if handleMessageAddedEvent_ref this \<in> set ls then length (MessageManager_messages h)
      else messageCount st)"
  by (induction ls arbitrary: st) (simp_all add: invoke_listener_count)

lemma emit_not_subscribed:
  "handleMessageAddedEvent_ref this \<notin> set ls \<Longrightarrow> emit this ls h args st = st"
  by (induction ls arbitrary: st) (simp_all add: invoke_listener_def)

lemma emit_keeps_tab_and_target:
  "activeTab (emit this ls h args st) = activeTab st \<and> target (emit this ls h args st) = target st"
  by (induction ls arbitrary: st) (simp_all add: invoke_listener_def handleMessageAddedEvent_def)

lemma emit_events_append:
  "emit_events this ls (evs @ evs') st = emit_events this ls evs' (emit_events this ls evs st)"
  by (induction evs arbitrary: st) auto

lemma componentDidMount_subscribes:
  "handleMessageAddedEvent_ref this \<in> set (componentDidMount this ls)"
  by (simp add: componentDidMount_def addListener_def)

text \<open>
  C7. The component subscribes to the message-added event and its count follows the
  message list. The state of a new component has \<open>messageCount\<close> equal to the length
  of \<open>MessageManager.messages\<close>. \<open>componentDidMount\<close> puts the component's handler
  among the listeners of \<open>MessageManager.onMessageAddedEvent\<close>, whatever listeners
  there were. Whenever the event is raised while the handler is among the listeners
  (the component is mounted), then from any state of the component
  \<open>messageCount\<close> is afterwards the length of \<open>MessageManager.messages\<close> as it is at
  that event; so after any run of events raised on the listeners that
  \<open>componentDidMount\<close> left, the count is the length of the list at the last event.
\<close>

theorem messageCount_synchronized:
  "messageCount (initial_state h0) = length (MessageManager_messages h0)
   \<and> handleMessageAddedEvent_ref this \<in> set (componentDidMount this ls)
   \<and> (handleMessageAddedEvent_ref this \<in> set ls' \<longrightarrow>
        messageCount (emit this ls' h args st) = length (MessageManager_messages h))
   \<and> messageCount (emit this (componentDidMount this ls) h args st)
        = length (MessageManager_messages h)
   \<and> messageCount (emit_events this (componentDidMount this ls) (evs @ [(h, args)]) st)
        = length (MessageManager_messages h)"
proof -
  have init: "messageCount (initial_state h0) = length (MessageManager_messages h0)"
    by (simp add: initial_state_def)
  have sub: "handleMessageAddedEvent_ref this \<in> set (componentDidMount this ls)"
    by (rule componentDidMount_subscribes)
  have step: "messageCount (emit this ls' h args st) = length (MessageManager_messages h)"
    if "handleMessageAddedEvent_ref this \<in> set ls'" for ls' st
    using that by (simp add: emit_count)
  have mounted: "messageCount (emit this (componentDidMount this ls) h args st')
      = length (MessageManager_messages h)" for st'
    using sub by (rule step)
  have run: "messageCount (emit_events this (componentDidMount this ls) (evs @ [(h, args)]) st)
      = length (MessageManager_messages h)"
    by (simp add: emit_events_append mounted)
  from init sub step mounted run show ?thesis by blast
qed

text \<open>
  Witness: the manager holds two messages and two other listeners are registered
  around the component's handler, the function object 3; the component's count is
  stale at 0 before the event and 2 after it.
\<close>

theorem messageCount_synchronized_witness:
  "handleMessageAddedEvent_ref \<lparr>className = ''MessageCenterField'', handleMessageAddedEvent_ref = 3\<rparr>
     \<in> set [1, 3, 2]
   \<and> messageCount
       (emit \<lparr>className = ''MessageCenterField'', handleMessageAddedEvent_ref = 3\<rparr> [1, 3, 2]
          \<lparr>MessageManager_messages =
             [\<lparr>priority = Error, briefMessage = ''a'', detailedMessage = None\<rparr>,
              \<lparr>priority = OtherPriority 12, briefMessage = ''b'', detailedMessage = Some ''x''\<rparr>],
           arrays = []\<rparr>
          \<lparr>priority = OtherPriority 12, briefMessage = ''b'', detailedMessage = Some ''x''\<rparr>
          \<lparr>activeTab = AllMessages, target = None, messageCount = 0\<rparr>)
     = 2"
  using messageCount_synchronized
    [where this = "\<lparr>className = ''MessageCenterField'', handleMessageAddedEvent_ref = 3\<rparr>"
       and ls' = "[1, 3, 2]"
       and h = "\<lparr>MessageManager_messages =
             [\<lparr>priority = Error, briefMessage = ''a'', detailedMessage = None\<rparr>,
              \<lparr>priority = OtherPriority 12, briefMessage = ''b'', detailedMessage = Some ''x''\<rparr>],
           arrays = []\<rparr>"
       and args = "\<lparr>priority = OtherPriority 12, briefMessage = ''b'', detailedMessage = Some ''x''\<rparr>"
       and st = "\<lparr>activeTab = AllMessages, target = None, messageCount = 0\<rparr>"]
  by simp

subsection \<open>Mounting and unmounting\<close>

lemma remove1_append_fresh: "x \<notin> set xs \<Longrightarrow> remove1 x (xs @ [x]) = xs"
  by (induction xs) auto

lemma count_list_remove1_snoc: "count_list (remove1 x (xs @ [x])) y = count_list xs y"
  by (induction xs) auto

text \<open>
  C9. \<open>componentWillUnmount\<close> removes the function object that \<open>componentDidMount\<close>
  added, the one held by the field \<open>_handleMessageAddedEvent\<close> of the instance. A
  mount followed by an unmount leaves the listeners of the event as they were: the
  same set, each listener registered as many times as before, and the very same list
  when the handler was not registered before the mount.
\<close>

theorem mount_unmount_listeners_unchanged:
  "componentDidMount this ls = addListener ls (handleMessageAddedEvent_ref this)
   \<and> componentWillUnmount this ls = removeListener ls (handleMessageAddedEvent_ref this)
   \<and> set (componentWillUnmount this (componentDidMount this ls)) = set ls
   \<and> count_list (componentWillUnmount this (componentDidMount this ls)) l = count_list ls l
   \<and> (handleMessageAddedEvent_ref this \<notin> set ls
        \<longrightarrow> componentWillUnmount this (componentDidMount this ls) = ls)"
proof -
  let ?r = "handleMessageAddedEvent_ref this"
  have c: "\<And>y. count_list (remove1 ?r (ls @ [?r])) y = count_list ls y"
    by (rule count_list_remove1_snoc)
  have "set (remove1 ?r (ls @ [?r])) = set ls"
  proof (rule set_eqI)
    fix y
    show "y \<in> set (remove1 ?r (ls @ [?r])) \<longleftrightarrow> y \<in> set ls"
      using c [of y] by (metis count_list_0_iff)
  qed
  then show ?thesis
    by (simp add: componentDidMount_def componentWillUnmount_def addListener_def
        removeListener_def c remove1_append_fresh del: remove1_append)
qed

text \<open>
  Witness: two other listeners are registered; the component's handler is the
  function object 3.
\<close>

theorem mount_unmount_listeners_unchanged_witness:
  "componentDidMount \<lparr>className = ''MessageCenterField'', handleMessageAddedEvent_ref = 3\<rparr> [1, 2]
     = [1, 2, 3]
   \<and> componentWillUnmount \<lparr>className = ''MessageCenterField'', handleMessageAddedEvent_ref = 3\<rparr>
       (componentDidMount \<lparr>className = ''MessageCenterField'', handleMessageAddedEvent_ref = 3\<rparr>
          [1, 2])
     = [1, 2]"
  using mount_unmount_listeners_unchanged
    [of "\<lparr>className = ''MessageCenterField'', handleMessageAddedEvent_ref = 3\<rparr>" "[1, 2]" 1]
  by (simp add: componentDidMount_def componentWillUnmount_def addListener_def
      removeListener_def)

end
